theory Spec2Isabelle
  imports Complex_Main
begin

section \<open>JavaScript values\<close>

text \<open>
  The AR front end (\<^verbatim>\<open>campus-ar/src/App.jsx\<close>, and an earlier revision of the same
  component kept as \<^verbatim>\<open>unnamed/part_000\<close>) computes with JavaScript numbers and tests
  them with \<^verbatim>\<open>if (v)\<close>, \<^verbatim>\<open>v !== null\<close>, \<^verbatim>\<open>v !== undefined\<close> and \<^verbatim>\<open>v || 0\<close>.
  A value read from a sensor event or from React state is therefore one of
  \<^verbatim>\<open>undefined\<close>, \<^verbatim>\<open>null\<close>, \<^verbatim>\<open>NaN\<close> or a finite number. Finite numbers are
  idealised as real numbers: rounding of IEEE doubles is not modelled, and
  \<^verbatim>\<open>Math.PI\<close>, \<^verbatim>\<open>Math.cos\<close> are the real \<open>pi\<close> and \<open>cos\<close>.
\<close>

datatype jsval = Undefined | Null | NaN | Num real

text \<open>\<^verbatim>\<open>if (v)\<close>: \<^verbatim>\<open>undefined\<close>, \<^verbatim>\<open>null\<close>, \<^verbatim>\<open>NaN\<close> and \<^verbatim>\<open>0\<close> are falsy.\<close>

fun truthy :: "jsval \<Rightarrow> bool" where
  "truthy (Num r) = (r \<noteq> 0)"
| "truthy _ = False"

text \<open>
  \<^verbatim>\<open>c - v\<close> for a number \<^verbatim>\<open>c\<close>: the operand is converted to a number first, so
  \<^verbatim>\<open>null\<close> counts as \<^verbatim>\<open>0\<close> and \<^verbatim>\<open>undefined\<close> gives \<^verbatim>\<open>NaN\<close>.
\<close>

fun minus_from :: "real \<Rightarrow> jsval \<Rightarrow> jsval" where
  "minus_from c (Num a) = Num (c - a)"
| "minus_from c Null = Num c"
| "minus_from c _ = NaN"

text \<open>\<^verbatim>\<open>v || 0\<close>, read as the number handed on to \<^verbatim>\<open>degToRad\<close>.\<close>

fun or_zero :: "jsval \<Rightarrow> real" where
  "or_zero (Num r) = (if r \<noteq> 0 then r else 0)"
| "or_zero _ = 0"

text \<open>
  \<^verbatim>\<open>THREE.MathUtils.degToRad\<close> belongs to the three.js library, which multiplies by
  \<^verbatim>\<open>Math.PI / 180\<close>.
\<close>

definition degToRad :: "real \<Rightarrow> real" where
  "degToRad degrees = degrees * (pi / 180)"


section \<open>Geodetic projector: \<^verbatim>\<open>latLonToOffset\<close>\<close>

definition WORLD_ORIGIN :: "real \<times> real" where
  "WORLD_ORIGIN = (12.7489708, 80.1988392)"

definition earthRadius :: real where
  "earthRadius = 6371000"

text \<open>The function is the same in both revisions of the component.\<close>

definition latLonToOffset :: "real \<Rightarrow> real \<Rightarrow> real \<Rightarrow> real \<Rightarrow> real \<times> real \<times> real" where
  "latLonToOffset lat0 lon0 lat lon =
     (let dLat = (lat - lat0) * (pi / 180);
          dLon = (lon - lon0) * (pi / 180);
          x = dLon * earthRadius * cos (lat0 * pi / 180);
          z = dLat * earthRadius
      in (x, 0, - z))"


section \<open>Orientation calibrator: \<^verbatim>\<open>useDeviceHeading\<close>\<close>

text \<open>
  The hook listens to two window event types. A \<^verbatim>\<open>DeviceOrientationEvent\<close> has a
  nullable numeric \<^verbatim>\<open>alpha\<close>; \<^verbatim>\<open>webkitCompassHeading\<close> exists on iOS only, so
  it reads as \<^verbatim>\<open>undefined\<close> elsewhere.
\<close>

datatype eventType = deviceorientationabsolute | deviceorientation

record DeviceOrientationEvent =
  webkitCompassHeading :: jsval
  alpha :: jsval

text \<open>The local variable \<^verbatim>\<open>compass\<close> of \<^verbatim>\<open>handleOrientation\<close>, unassigned as \<open>Undefined\<close>.\<close>

definition compass :: "DeviceOrientationEvent \<Rightarrow> jsval" where
  "compass e =
     (if truthy (webkitCompassHeading e) then webkitCompassHeading e
      else if alpha e \<noteq> Null then minus_from 360 (alpha e)
      else Undefined)"

text \<open>
  The state of the hook: the React state \<open>initialHeading\<close>; the value of that state
  which the currently registered \<^verbatim>\<open>handleOrientation\<close> closed over when its effect ran
  (\<open>captured\<close>); and the event types on which that handler is registered. Each effect
  run registers one new function on both types and its cleanup removes that function
  again, so at most one handler is registered at any time.
\<close>

record useDeviceHeading_state =
  initialHeading :: jsval
  captured :: jsval
  listeners :: "eventType set"

text \<open>
  The handler reads \<^verbatim>\<open>initialHeading\<close> from its closure. The two \<^verbatim>\<open>alert\<close> calls of
  \<^verbatim>\<open>App.jsx\<close> only display text and are left out. No statement of the handler can throw.
\<close>

definition handleOrientation ::
    "DeviceOrientationEvent \<Rightarrow> useDeviceHeading_state \<Rightarrow> useDeviceHeading_state" where
  "handleOrientation e h =
     (let c = compass e in
      if c \<noteq> Undefined \<and> captured h = Null
      then h\<lparr>initialHeading := c,
             listeners := listeners h - {deviceorientationabsolute} - {deviceorientation}\<rparr>
      else h)"

text \<open>The window delivers an event of a type to the handler registered for that type.\<close>

definition dispatchEvent ::
    "eventType \<Rightarrow> DeviceOrientationEvent \<Rightarrow> useDeviceHeading_state \<Rightarrow> useDeviceHeading_state" where
  "dispatchEvent ty e h = (if ty \<in> listeners h then handleOrientation e h else h)"

text \<open>After the first render the effect has run once with \<^verbatim>\<open>initialHeading\<close> null.\<close>

definition useDeviceHeading_mount :: useDeviceHeading_state where
  "useDeviceHeading_mount =
     \<lparr>initialHeading = Null, captured = Null,
      listeners = {deviceorientationabsolute, deviceorientation}\<rparr>"

text \<open>
  A re-render flushes the effect, whose dependency list is \<^verbatim>\<open>[initialHeading]\<close>: when
  the state differs from the one the last run saw, the cleanup removes the old handler
  from both types and the effect registers a new handler, closed over the new state, on
  both types.
\<close>

definition useDeviceHeading_effect :: "useDeviceHeading_state \<Rightarrow> useDeviceHeading_state" where
  "useDeviceHeading_effect h =
     (if captured h = initialHeading h then h
      else h\<lparr>captured := initialHeading h,
             listeners := insert deviceorientationabsolute (insert deviceorientation
               (listeners h - {deviceorientationabsolute} - {deviceorientation}))\<rparr>)"

datatype hook_event = Orientation eventType DeviceOrientationEvent | Rerender

fun hook_step :: "hook_event \<Rightarrow> useDeviceHeading_state \<Rightarrow> useDeviceHeading_state" where
  "hook_step (Orientation ty e) h = dispatchEvent ty e h"
| "hook_step Rerender h = useDeviceHeading_effect h"

fun hook_run :: "hook_event list \<Rightarrow> useDeviceHeading_state \<Rightarrow> useDeviceHeading_state" where
  "hook_run [] h = h"
| "hook_run (ev # evs) h = hook_run evs (hook_step ev h)"


section \<open>Position tracker and scene composer: \<^verbatim>\<open>App\<close>\<close>

record obj =
  lat :: real
  lon :: real
  type :: string

text \<open>
  The component state: \<^verbatim>\<open>origin\<close> (null until a fix arrives), \<^verbatim>\<open>objects\<close>, the state
  of the \<^verbatim>\<open>useDeviceHeading\<close> hook, and the component's own copy of the heading, which
  the source also calls \<^verbatim>\<open>initialHeading\<close>.
\<close>

record App_state =
  origin :: "(real \<times> real) option"
  objects :: "obj list"
  headingHook :: useDeviceHeading_state
  App_initialHeading :: jsval

text \<open>\<^verbatim>\<open>const heading = useDeviceHeading()\<close>\<close>

definition heading :: "App_state \<Rightarrow> jsval" where
  "heading s = initialHeading (headingHook s)"

definition App_mount :: App_state where
  "App_mount =
     \<lparr>origin = None, objects = [], headingHook = useDeviceHeading_mount,
      App_initialHeading = Null\<rparr>"

text \<open>The success callback of \<^verbatim>\<open>getCurrentPosition\<close> in \<^verbatim>\<open>App.jsx\<close>.\<close>

definition onPosition :: "real \<Rightarrow> real \<Rightarrow> App_state \<Rightarrow> App_state" where
  "onPosition latitude longitude s =
     s\<lparr>origin := Some (latitude, longitude),
       objects :=
         [\<lparr>lat = latitude, lon = longitude, type = ''user''\<rparr>,
          \<lparr>lat = latitude + 0.00005, lon = longitude, type = ''monk''\<rparr>,
          \<lparr>lat = latitude + 0.0001, lon = longitude + 0.0001, type = ''monk''\<rparr>,
          \<lparr>lat = latitude + 0.00001, lon = longitude + 0.00001, type = ''monk''\<rparr>,
          \<lparr>lat = latitude + 0.00002, lon = longitude + 0.00002, type = ''monk''\<rparr>,
          \<lparr>lat = latitude, lon = longitude + 0.00005, type = ''button''\<rparr>]\<rparr>"

text \<open>The same callback in the earlier revision \<^verbatim>\<open>part_000\<close>.\<close>

definition onPosition_part_000 :: "real \<Rightarrow> real \<Rightarrow> App_state \<Rightarrow> App_state" where
  "onPosition_part_000 latitude longitude s =
     s\<lparr>origin := Some (latitude, longitude),
       objects :=
         [\<lparr>lat = latitude + 0.00005, lon = longitude, type = ''monk''\<rparr>,
          \<lparr>lat = latitude, lon = longitude + 0.00005, type = ''button''\<rparr>]\<rparr>"

text \<open>The effect ``capture initial heading once'', dependencies \<^verbatim>\<open>[heading, initialHeading]\<close>.\<close>

definition captureInitialHeading :: "App_state \<Rightarrow> App_state" where
  "captureInitialHeading s =
     (if truthy (heading s) \<and> App_initialHeading s = Null
      then s\<lparr>App_initialHeading := heading s\<rparr>
      else s)"

text \<open>
  What \<^verbatim>\<open>App\<close> returns. Only the parts that carry placement are kept: the rotation of
  the root group, one element per object with its \<^verbatim>\<open>position\<close>, and the heading handed
  to the compass overlay. No element below the root group receives a rotation property.
\<close>

datatype element =
    MonkGroup "real \<times> real \<times> real"
  | UserMesh "real \<times> real \<times> real"
  | Button "real \<times> real \<times> real"

fun position :: "element \<Rightarrow> real \<times> real \<times> real" where
  "position (MonkGroup p) = p"
| "position (UserMesh p) = p"
| "position (Button p) = p"

datatype view = GettingGPS | Scene "real \<times> real \<times> real" "element list" jsval

fun children :: "view \<Rightarrow> element list" where
  "children GettingGPS = []"
| "children (Scene r cs ov) = cs"

definition groupRotation :: "App_state \<Rightarrow> real \<times> real \<times> real" where
  "groupRotation s = (0, - degToRad (or_zero (App_initialHeading s)), 0)"

text \<open>The body of \<^verbatim>\<open>objects.map\<close> in \<^verbatim>\<open>App.jsx\<close>: offsets are taken from \<open>WORLD_ORIGIN\<close>.\<close>

definition place :: "obj \<Rightarrow> element" where
  "place ob =
     (let p = latLonToOffset (fst WORLD_ORIGIN) (snd WORLD_ORIGIN) (lat ob) (lon ob)
      in if type ob = ''monk'' then MonkGroup p
         else if type ob = ''user'' then UserMesh p
         else Button p)"

definition App :: "App_state \<Rightarrow> view" where
  "App s =
     (case origin s of
        None \<Rightarrow> GettingGPS
      | Some og \<Rightarrow> Scene (groupRotation s) (map place (objects s)) (heading s))"

text \<open>The earlier revision \<^verbatim>\<open>part_000\<close> takes offsets from the \<^verbatim>\<open>origin\<close> state.\<close>

definition place_part_000 :: "real \<times> real \<Rightarrow> obj \<Rightarrow> element" where
  "place_part_000 og ob =
     (let p = latLonToOffset (fst og) (snd og) (lat ob) (lon ob)
      in if type ob = ''monk'' then MonkGroup p else Button p)"

definition App_part_000 :: "App_state \<Rightarrow> view" where
  "App_part_000 s =
     (case origin s of
        None \<Rightarrow> GettingGPS
      | Some og \<Rightarrow> Scene (groupRotation s) (map (place_part_000 og) (objects s)) (heading s))"

text \<open>
  The events of a session. \<open>Commit\<close> is a React re-render with its effects flushed: the
  hook's effect and the capture effect. The capture effect changes nothing when it is
  run a second time on the same state, so running it at every commit is the same as
  running it when its dependencies changed. The error callback of the position request
  only logs.
\<close>

datatype App_event =
    Position real real
  | PositionError
  | Sensor eventType DeviceOrientationEvent
  | Commit

fun App_step :: "App_event \<Rightarrow> App_state \<Rightarrow> App_state" where
  "App_step (Position latitude longitude) s = onPosition latitude longitude s"
| "App_step PositionError s = s"
| "App_step (Sensor ty e) s = s\<lparr>headingHook := dispatchEvent ty e (headingHook s)\<rparr>"
| "App_step Commit s =
     captureInitialHeading (s\<lparr>headingHook := useDeviceHeading_effect (headingHook s)\<rparr>)"

fun App_run :: "App_event list \<Rightarrow> App_state \<Rightarrow> App_state" where
  "App_run [] s = s"
| "App_run (ev # evs) s = App_run evs (App_step ev s)"


section \<open>Back end: \<^verbatim>\<open>DELETE /api/arpoints/:id\<close>\<close>

text \<open>
  \<^verbatim>\<open>server.js\<close> stores points through Mongoose. A stored document carries the
  identifier \<^verbatim>\<open>_id\<close> next to the fields of \<^verbatim>\<open>ARPointSchema\<close>; the collection is the
  list of stored documents.
\<close>

record ARPoint =
  point_id :: string
  name :: string
  modelUrl :: string
  modelType :: string
  latitude :: real
  longitude :: real
  createdAt :: nat

datatype error = CastError

fun error_message :: "error \<Rightarrow> string" where
  "error_message CastError = ''Cast to ObjectId failed''"

text \<open>
  \<^verbatim>\<open>ARPoint.findByIdAndDelete\<close> is a Mongoose library call, not code of the repository.
  It is modelled by its documented behaviour: an identifier that cannot be cast to an
  ObjectId rejects with a cast error; otherwise the one document with that \<^verbatim>\<open>_id\<close> is
  removed and returned, and \<^verbatim>\<open>null\<close> is returned when there is none. Which strings
  can be cast depends on the library version and is the parameter \<open>wellFormed\<close>.
\<close>

fun delete_first :: "('a \<Rightarrow> bool) \<Rightarrow> 'a list \<Rightarrow> 'a list" where
  "delete_first P [] = []"
| "delete_first P (x # xs) = (if P x then xs else x # delete_first P xs)"

definition findByIdAndDelete ::
    "(string \<Rightarrow> bool) \<Rightarrow> string \<Rightarrow> ARPoint list \<Rightarrow> error + (ARPoint option \<times> ARPoint list)" where
  "findByIdAndDelete wellFormed i db =
     (if \<not> wellFormed i then Inl CastError
      else Inr (find (\<lambda>p. point_id p = i) db, delete_first (\<lambda>p. point_id p = i) db))"

record response =
  status :: nat
  message :: string

text \<open>The route handler: the result of the library call is awaited and dropped.\<close>

definition delete_arpoint ::
    "(string \<Rightarrow> bool) \<Rightarrow> string \<Rightarrow> ARPoint list \<Rightarrow> response \<times> ARPoint list" where
  "delete_arpoint wellFormed i db =
     (case findByIdAndDelete wellFormed i db of
        Inl err \<Rightarrow> (\<lparr>status = 500, message = error_message err\<rparr>, db)
      | Inr (found, db') \<Rightarrow> (\<lparr>status = 200, message = ''Point deleted successfully''\<rparr>, db'))"


section \<open>Invariants and a test scenario\<close>

text \<open>
  Two invariants of the reachable states, used in the proofs below. While the hook is
  uncalibrated the handler of the first effect run is registered on both event types;
  and a registered handler has always closed over the current state, because a state
  change is made by a handler that removes itself in the same breath, and the next
  handler is created only by the effect run that follows.
\<close>

definition calibrator_inv :: "useDeviceHeading_state \<Rightarrow> bool" where
  "calibrator_inv h \<longleftrightarrow>
     (initialHeading h = Null \<longrightarrow>
        captured h = Null \<and> listeners h = {deviceorientationabsolute, deviceorientation})
     \<and> (listeners h \<noteq> {} \<longrightarrow> captured h = initialHeading h)"

text \<open>The component's copy of the heading is either still null or equal to the hook's value.\<close>

definition App_inv :: "App_state \<Rightarrow> bool" where
  "App_inv s \<longleftrightarrow>
     calibrator_inv (headingHook s)
     \<and> (App_initialHeading s = Null \<or> App_initialHeading s = heading s)"

text \<open>
  The end-to-end scenario of the specification, run on the earlier revision: a fix at
  \<open>(0, 0)\<close>, then one orientation sample with \<^verbatim>\<open>alpha = 360\<close>, which calibrates the
  heading to \<open>0\<close>, then a commit.
\<close>

definition scenario_part_000 :: App_state where
  "scenario_part_000 =
     App_run [Sensor deviceorientation \<lparr>webkitCompassHeading = Undefined, alpha = Num 360\<rparr>, Commit]
       (onPosition_part_000 0 0 App_mount)"


section \<open>Bounds on \<open>pi\<close> and on the cosine\<close>

text \<open>
  The numeric claim needs \<open>pi\<close> to two digits. The bounds come from the Taylor polynomial
  of the cosine with its remainder, compared with \<open>cos (pi / 3) = 1 / 2\<close>.
\<close>

lemma cos_taylor6:
  fixes x :: real
  assumes "0 < x"
  shows "\<bar>cos x - (1 - x^2/2 + x^4/24)\<bar> \<le> x^6/720"
proof -
  obtain t where t: "cos x = (\<Sum>m<6. cos_coeff m * x ^ m) + (cos (t + 1/2 * real 6 * pi) / fact 6) * x ^ 6"
    using Maclaurin_cos_expansion2[of x 6] assms by auto
  have six: "{..<6::nat} = {0, 1, 2, 3, 4, 5}" by auto
  have s: "(\<Sum>m<6. cos_coeff m * x ^ m) = 1 - x^2/2 + x^4/24"
    unfolding six by (simp add: cos_coeff_def fact_numeral)
  have f: "fact 6 = (720::real)" by (simp add: fact_numeral)
  have "\<bar>cos x - (1 - x^2/2 + x^4/24)\<bar> = \<bar>cos (t + 1/2 * real 6 * pi)\<bar> * (x^6/720)"
    unfolding t s f by (simp add: abs_mult)
  also have "\<dots> \<le> 1 * (x^6/720)"
    by (rule mult_right_mono) simp_all
  finally show ?thesis by simp
qed

lemma cos_103: "1/2 < cos (1.03::real)"
proof -
  have "(1/2::real) < 1 - 1.03^2/2 + 1.03^4/24 - 1.03^6/720" by (simp add: power_def)
  moreover have "\<bar>cos (1.03::real) - (1 - 1.03^2/2 + 1.03^4/24)\<bar> \<le> 1.03^6/720"
    by (rule cos_taylor6) simp
  ultimately show ?thesis by linarith
qed

lemma cos_106: "cos (1.06::real) < 1/2"
proof -
  have "1 - 1.06^2/2 + 1.06^4/24 + 1.06^6/720 < (1/2::real)" by (simp add: power_def)
  moreover have "\<bar>cos (1.06::real) - (1 - 1.06^2/2 + 1.06^4/24)\<bar> \<le> 1.06^6/720"
    by (rule cos_taylor6) simp
  ultimately show ?thesis by linarith
qed

lemma pi_lower: "309 / 100 < pi"
proof (rule ccontr)
  assume "\<not> 309 / 100 < pi"
  then have le: "pi/3 \<le> 1.03" by simp
  have "cos (1.03::real) \<le> cos (pi/3)"
    by (rule cos_monotone_0_pi_le) (use le pi_ge_two in auto)
  then show False using cos_103 by (simp add: cos_60)
qed

lemma pi_upper: "pi < 318 / 100"
proof (rule ccontr)
  assume "\<not> pi < 318 / 100"
  then have le: "1.06 \<le> pi/3" by simp
  have "cos (pi/3) \<le> cos (1.06::real)"
    by (rule cos_monotone_0_pi_le) (use le pi_ge_two in auto)
  then show False using cos_106 by (simp add: cos_60)
qed

lemma cos_lipschitz: "\<bar>cos a - cos b\<bar> \<le> \<bar>a - b\<bar>" for a b :: real
proof -
  have "\<bar>cos a - cos b\<bar> = 2 * \<bar>sin ((a + b) / 2)\<bar> * \<bar>sin ((b - a) / 2)\<bar>"
    by (simp add: cos_diff_cos abs_mult)
  also have "\<dots> \<le> 2 * 1 * \<bar>(b - a) / 2\<bar>"
    by (intro mult_mono abs_sin_x_le_abs_x) simp_all
  also have "\<dots> = \<bar>a - b\<bar>" by (simp add: abs_minus_commute)
  finally show ?thesis .
qed


section \<open>Properties of the projector\<close>

lemma latLonToOffset_eq:
  "latLonToOffset lat0 lon0 lat1 lon1 =
     ((lon1 - lon0) * (pi / 180) * earthRadius * cos (lat0 * pi / 180), 0,
      - ((lat1 - lat0) * (pi / 180) * earthRadius))"
  by (simp add: latLonToOffset_def Let_def)

text \<open>
  C6. Projecting a coordinate from itself gives the zero offset: for every latitude and
  longitude, \<^verbatim>\<open>latLonToOffset(lat, lon, lat, lon)\<close> is \<^verbatim>\<open>[0, 0, 0]\<close>.
\<close>

theorem latLonToOffset_self: "latLonToOffset lat0 lon0 lat0 lon0 = (0, 0, 0)"
  by (simp add: latLonToOffset_def)

lemma diff_scale: "a * k - b * k = - ((b - a) * k)" for a b k :: real
  by (simp add: algebra_simps)

lemma swap_z_algebra: "- ((b - a) * k * r) = - (- ((a - b) * k * r))" for a b k r :: real
  by (simp add: algebra_simps)

lemma swap_x_algebra:
  "(b - a) * k * r * c0 - (- ((a - b) * k * r * c1)) = r * ((b - a) * k) * (c0 - c1)"
  for a b k r c0 c1 :: real
  by (simp add: algebra_simps)

text \<open>
  C7. Swapping origin and target negates the offset to first order. The \<open>z\<close> component
  is negated exactly. The \<open>x\<close> components of the two projections are scaled by the cosine
  of two different latitudes, so they are opposite only up to an error of second order:
  the sum of the two \<open>x\<close> components is at most the earth radius times the product of
  the longitude difference and the latitude difference, both in radians.
\<close>

theorem latLonToOffset_swap:
  "snd (snd (latLonToOffset lat0 lon0 lat1 lon1)) = - snd (snd (latLonToOffset lat1 lon1 lat0 lon0))
   \<and> \<bar>fst (latLonToOffset lat0 lon0 lat1 lon1) - (- fst (latLonToOffset lat1 lon1 lat0 lon0))\<bar>
       \<le> earthRadius * \<bar>(lon1 - lon0) * (pi / 180)\<bar> * \<bar>(lat1 - lat0) * (pi / 180)\<bar>"
proof -
  let ?d = "(lon1 - lon0) * (pi / 180)"
  let ?c = "cos (lat0 * pi / 180) - cos (lat1 * pi / 180)"
  have z: "snd (snd (latLonToOffset lat0 lon0 lat1 lon1)) = - snd (snd (latLonToOffset lat1 lon1 lat0 lon0))"
    unfolding latLonToOffset_eq snd_conv by (rule swap_z_algebra)
  have x: "fst (latLonToOffset lat0 lon0 lat1 lon1) - (- fst (latLonToOffset lat1 lon1 lat0 lon0))
      = earthRadius * ?d * ?c"
    unfolding latLonToOffset_eq fst_conv by (rule swap_x_algebra)
  have r: "\<bar>earthRadius\<bar> = earthRadius"
    by (simp add: earthRadius_def)
  have "\<bar>?c\<bar> \<le> \<bar>lat0 * pi / 180 - lat1 * pi / 180\<bar>"
    by (rule cos_lipschitz)
  also have "lat0 * pi / 180 - lat1 * pi / 180 = - ((lat1 - lat0) * (pi / 180))"
    using diff_scale [of lat0 "pi / 180" lat1] by simp
  also have "\<bar>- ((lat1 - lat0) * (pi / 180))\<bar> = \<bar>(lat1 - lat0) * (pi / 180)\<bar>"
    by (rule abs_minus_cancel)
  finally have c: "\<bar>?c\<bar> \<le> \<bar>(lat1 - lat0) * (pi / 180)\<bar>" .
  have "\<bar>earthRadius * ?d * ?c\<bar> = (earthRadius * \<bar>?d\<bar>) * \<bar>?c\<bar>"
    by (simp only: abs_mult r)
  also have "\<dots> \<le> (earthRadius * \<bar>?d\<bar>) * \<bar>(lat1 - lat0) * (pi / 180)\<bar>"
    using c by (rule mult_left_mono) (simp add: earthRadius_def)
  finally have b: "\<bar>earthRadius * ?d * ?c\<bar>
      \<le> earthRadius * \<bar>?d\<bar> * \<bar>(lat1 - lat0) * (pi / 180)\<bar>" .
  show ?thesis by (rule conjI [OF z]) (simp only: x b)
qed

text \<open>
  The \<open>x\<close> components are not opposite exactly: between the equator and latitude 60,
  one degree of longitude apart, one projection is twice the other.
\<close>

lemma latLonToOffset_swap_x_inexact:
  "fst (latLonToOffset 0 0 60 1) \<noteq> - fst (latLonToOffset 60 1 0 0)"
proof -
  have "cos (60 * pi / 180) = (1/2::real)" using cos_60 by simp
  then show ?thesis by (simp add: latLonToOffset_def Let_def earthRadius_def)
qed

lemma north_bound: "\<bar>- (0.00005 * (pi / 180) * 6371000) - (- 5.55)\<bar> < (0.1::real)"
proof -
  have eq: "0.00005 * (pi / 180) * 6371000 = pi * (6371 / 3600)" by simp
  have "\<bar>- (pi * (6371 / 3600)) + 111 / 20\<bar> < 1 / 10"
    using pi_lower pi_upper by linarith
  then show ?thesis unfolding eq by simp
qed

lemma scenario_part_000_view:
  "App_part_000 scenario_part_000 =
     Scene (0, 0, 0)
       [MonkGroup (latLonToOffset 0 0 0.00005 0), Button (latLonToOffset 0 0 0 0.00005)] (Num 0)"
  by (simp add: scenario_part_000_def App_part_000_def onPosition_part_000_def App_mount_def
      useDeviceHeading_mount_def dispatchEvent_def handleOrientation_def compass_def
      useDeviceHeading_effect_def captureInitialHeading_def heading_def groupRotation_def
      degToRad_def place_part_000_def)

text \<open>
  C8. With origin \<open>(0, 0)\<close> and a target at \<open>(0.00005, 0)\<close> the projector returns
  \<open>x = 0\<close>, \<open>y = 0\<close> and a \<open>z\<close> within 0.1 m of \<open>-5.55\<close>. End to end, in the revision
  that projects from the fix: after a fix at \<open>(0, 0)\<close> and a heading calibrated to \<open>0\<close>,
  the root group is not rotated and the first entity is placed at that offset.
\<close>

theorem five_metres_north:
  "fst (latLonToOffset 0 0 0.00005 0) = 0
   \<and> fst (snd (latLonToOffset 0 0 0.00005 0)) = 0
   \<and> \<bar>snd (snd (latLonToOffset 0 0 0.00005 0)) - (- 5.55)\<bar> < 0.1
   \<and> heading scenario_part_000 = Num 0
   \<and> groupRotation scenario_part_000 = (0, 0, 0)
   \<and> position (children (App_part_000 scenario_part_000) ! 0) = latLonToOffset 0 0 0.00005 0"
proof -
  have p: "fst (latLonToOffset 0 0 0.00005 0) = 0
      \<and> fst (snd (latLonToOffset 0 0 0.00005 0)) = 0
      \<and> \<bar>snd (snd (latLonToOffset 0 0 0.00005 0)) - (- 5.55)\<bar> < 0.1"
    using north_bound by (simp add: latLonToOffset_eq earthRadius_def)
  have h: "heading scenario_part_000 = Num 0 \<and> groupRotation scenario_part_000 = (0, 0, 0)"
    by (simp add: scenario_part_000_def onPosition_part_000_def App_mount_def
        useDeviceHeading_mount_def dispatchEvent_def handleOrientation_def compass_def
        useDeviceHeading_effect_def captureInitialHeading_def heading_def groupRotation_def
        degToRad_def)
  have v: "position (children (App_part_000 scenario_part_000) ! 0) = latLonToOffset 0 0 0.00005 0"
    by (simp add: scenario_part_000_view)
  show ?thesis using p h v by simp
qed

text \<open>
  In \<^verbatim>\<open>App.jsx\<close> the origin of the projection is \<open>WORLD_ORIGIN\<close>; a fix taken there
  places the first monk at the same offset.
\<close>

lemma App_fix_at_WORLD_ORIGIN:
  "position (children (App (App_step (Position 12.7489708 80.1988392) App_mount)) ! 1)
     = latLonToOffset 0 0 0.00005 0"
  by (simp add: onPosition_def App_mount_def App_def place_def WORLD_ORIGIN_def latLonToOffset_eq)


section \<open>The calibrator is a one-shot state machine\<close>

lemma compass_not_Null: "compass e \<noteq> Null"
  by (cases "webkitCompassHeading e"; cases "alpha e") (simp_all add: compass_def)

lemma calibrator_inv_mount: "calibrator_inv useDeviceHeading_mount"
  by (simp add: calibrator_inv_def useDeviceHeading_mount_def)

lemma calibrator_inv_step: "calibrator_inv h \<Longrightarrow> calibrator_inv (hook_step ev h)"
proof (cases ev)
  case (Orientation ty e)
  assume "calibrator_inv h"
  then show ?thesis
    using compass_not_Null [of e]
    by (auto simp: Orientation calibrator_inv_def dispatchEvent_def handleOrientation_def Let_def)
next
  case Rerender
  assume "calibrator_inv h"
  then show ?thesis
    by (auto simp: Rerender calibrator_inv_def useDeviceHeading_effect_def)
qed

lemma calibrator_inv_run: "calibrator_inv h \<Longrightarrow> calibrator_inv (hook_run evs h)"
  by (induction evs arbitrary: h) (simp_all add: calibrator_inv_step)

lemma calibrated_step:
  "calibrator_inv h \<Longrightarrow> initialHeading h \<noteq> Null \<Longrightarrow>
     initialHeading (hook_step ev h) = initialHeading h"
  by (cases ev)
     (auto simp: calibrator_inv_def dispatchEvent_def handleOrientation_def Let_def
        useDeviceHeading_effect_def)

lemma calibrated_run:
  "calibrator_inv h \<Longrightarrow> initialHeading h \<noteq> Null \<Longrightarrow>
     initialHeading (hook_run evs h) = initialHeading h"
proof (induction evs arbitrary: h)
  case Nil
  then show ?case by simp
next
  case (Cons ev evs)
  have "initialHeading (hook_step ev h) = initialHeading h"
    using Cons.prems by (rule calibrated_step)
  moreover have "calibrator_inv (hook_step ev h)"
    using Cons.prems(1) by (rule calibrator_inv_step)
  ultimately show ?case using Cons.IH [of "hook_step ev h"] Cons.prems(2) by simp
qed

lemma uncalibrated_sample:
  "calibrator_inv h \<Longrightarrow> initialHeading h = Null \<Longrightarrow> compass e \<noteq> Undefined \<Longrightarrow>
     hook_step (Orientation ty e) h = h\<lparr>initialHeading := compass e, listeners := {}\<rparr>"
  by (cases ty) (auto simp: calibrator_inv_def dispatchEvent_def handleOrientation_def Let_def)

text \<open>
  C2. In every state \<open>h\<close> that a session can reach from the mounted hook: while \<open>h\<close> is
  uncalibrated, a sample of either event type for which the handler computes a compass
  angle sets the heading to that angle, and in the same step the handler is removed from
  both event types; once \<open>h\<close> is calibrated, no sequence of samples and re-renders
  changes the heading. The angle is the reported compass heading when that is truthy,
  and \<open>360 - alpha\<close> when no compass heading is reported and \<open>alpha\<close> is a number.
\<close>

theorem calibrator_one_shot:
  assumes "h = hook_run evs useDeviceHeading_mount"
  shows "(initialHeading h = Null \<longrightarrow> compass e \<noteq> Undefined \<longrightarrow>
            initialHeading (hook_step (Orientation ty e) h) = compass e
            \<and> listeners (hook_step (Orientation ty e) h) = {})
       \<and> (initialHeading h \<noteq> Null \<longrightarrow> initialHeading (hook_run evs' h) = initialHeading h)
       \<and> (truthy (webkitCompassHeading e) \<longrightarrow> compass e = webkitCompassHeading e)
       \<and> (webkitCompassHeading e = Undefined \<longrightarrow> alpha e = Num a \<longrightarrow> compass e = Num (360 - a))"
proof -
  have inv: "calibrator_inv h"
    unfolding assms using calibrator_inv_mount by (rule calibrator_inv_run)
  show ?thesis
    using uncalibrated_sample [OF inv, of e ty] calibrated_run [OF inv, of evs']
    by (simp add: compass_def)
qed

text \<open>
  The samples \<^verbatim>\<open>{alpha: 350}\<close> then \<^verbatim>\<open>{alpha: 10}\<close>: the first sets the heading to
  \<open>10\<close> and empties the listeners; a re-render and the second sample leave it at \<open>10\<close>.
\<close>

theorem calibrator_one_shot_witness:
  "initialHeading (hook_run [] useDeviceHeading_mount) = Null
   \<and> compass \<lparr>webkitCompassHeading = Undefined, alpha = Num 350\<rparr> \<noteq> Undefined
   \<and> initialHeading (hook_step (Orientation deviceorientation
        \<lparr>webkitCompassHeading = Undefined, alpha = Num 350\<rparr>) (hook_run [] useDeviceHeading_mount)) = Num 10
   \<and> listeners (hook_step (Orientation deviceorientation
        \<lparr>webkitCompassHeading = Undefined, alpha = Num 350\<rparr>) (hook_run [] useDeviceHeading_mount)) = {}
   \<and> initialHeading (hook_run [Orientation deviceorientation
        \<lparr>webkitCompassHeading = Undefined, alpha = Num 350\<rparr>] useDeviceHeading_mount) \<noteq> Null
   \<and> initialHeading (hook_run [Rerender, Orientation deviceorientationabsolute
        \<lparr>webkitCompassHeading = Undefined, alpha = Num 10\<rparr>]
        (hook_run [Orientation deviceorientation
        \<lparr>webkitCompassHeading = Undefined, alpha = Num 350\<rparr>] useDeviceHeading_mount)) = Num 10
   \<and> truthy (webkitCompassHeading \<lparr>webkitCompassHeading = Num 42, alpha = Null\<rparr>)
   \<and> compass \<lparr>webkitCompassHeading = Num 42, alpha = Null\<rparr> = Num 42"
  using
    calibrator_one_shot [of "hook_run [] useDeviceHeading_mount" "[]"
      "\<lparr>webkitCompassHeading = Undefined, alpha = Num 350\<rparr>" deviceorientation "[]" 350]
    calibrator_one_shot [of "hook_run [Orientation deviceorientation
        \<lparr>webkitCompassHeading = Undefined, alpha = Num 350\<rparr>] useDeviceHeading_mount"
      "[Orientation deviceorientation \<lparr>webkitCompassHeading = Undefined, alpha = Num 350\<rparr>]"
      "\<lparr>webkitCompassHeading = Num 42, alpha = Null\<rparr>" deviceorientation
      "[Rerender, Orientation deviceorientationabsolute
        \<lparr>webkitCompassHeading = Undefined, alpha = Num 10\<rparr>]" 0]
  by (simp add: useDeviceHeading_mount_def dispatchEvent_def handleOrientation_def compass_def)

text \<open>
  The removal holds for the handler that made the transition. The state change makes
  the effect run again at the next render, and that run registers a fresh handler on
  both event types; this handler has closed over the calibrated value, so its guard
  never passes.
\<close>

lemma rerender_subscribes_again:
  "listeners (hook_run [Orientation deviceorientation
        \<lparr>webkitCompassHeading = Undefined, alpha = Num 350\<rparr>, Rerender] useDeviceHeading_mount)
     = {deviceorientationabsolute, deviceorientation}"
  by (simp add: useDeviceHeading_mount_def dispatchEvent_def handleOrientation_def compass_def
      useDeviceHeading_effect_def)

text \<open>
  C3. A reported compass heading is meant to be used as it is, for every reported value.
  The handler tests the field for truthiness, so a reported heading of \<open>0\<close> is treated
  as absent: with \<^verbatim>\<open>alpha = 90\<close> the uncalibrated hook is calibrated to \<open>270\<close> rather
  than \<open>0\<close>, and with \<^verbatim>\<open>alpha = null\<close> the sample is dropped and the hook stays
  uncalibrated.
\<close>

theorem compassHeading_zero_dropped:
  "initialHeading (hook_step (Orientation deviceorientation
       \<lparr>webkitCompassHeading = Num 0, alpha = Num 90\<rparr>) useDeviceHeading_mount) = Num 270
   \<and> initialHeading (hook_step (Orientation deviceorientation
       \<lparr>webkitCompassHeading = Num 0, alpha = Null\<rparr>) useDeviceHeading_mount) = Null"
  by (simp add: useDeviceHeading_mount_def dispatchEvent_def handleOrientation_def compass_def)

text \<open>Every other reported heading is used as it is, whatever \<open>alpha\<close> holds.\<close>

lemma compassHeading_nonzero_used:
  assumes "h = hook_run evs useDeviceHeading_mount" and "initialHeading h = Null"
    and "webkitCompassHeading e = Num c" and "c \<noteq> 0"
  shows "initialHeading (hook_step (Orientation ty e) h) = Num c"
proof -
  have inv: "calibrator_inv h"
    unfolding assms(1) using calibrator_inv_mount by (rule calibrator_inv_run)
  have "compass e = Num c" using assms(3,4) by (simp add: compass_def)
  then show ?thesis using uncalibrated_sample [OF inv assms(2), of e ty] by simp
qed

text \<open>
  C5. A sample with no compass heading (the field is undefined or null) and with
  \<^verbatim>\<open>alpha = null\<close>, delivered to a reachable uncalibrated hook, changes nothing: the
  state after the sample is the state before it, the heading is still null and the
  handler is still registered on both event types. The handler has no failing branch.
\<close>

theorem unusable_sample_discarded:
  assumes "webkitCompassHeading e = Undefined \<or> webkitCompassHeading e = Null"
    and "alpha e = Null"
    and "h = hook_run evs useDeviceHeading_mount"
    and "initialHeading h = Null"
  shows "hook_step (Orientation ty e) h = h
       \<and> initialHeading (hook_step (Orientation ty e) h) = Null
       \<and> listeners (hook_step (Orientation ty e) h) = {deviceorientationabsolute, deviceorientation}"
proof -
  have inv: "calibrator_inv h"
    unfolding assms(3) using calibrator_inv_mount by (rule calibrator_inv_run)
  have "compass e = Undefined" using assms(1,2) by (auto simp: compass_def)
  then have "hook_step (Orientation ty e) h = h"
    by (simp add: dispatchEvent_def handleOrientation_def)
  then show ?thesis using inv assms(4) by (simp add: calibrator_inv_def)
qed

theorem unusable_sample_discarded_witness:
  "(webkitCompassHeading \<lparr>webkitCompassHeading = Undefined, alpha = Null\<rparr> = Undefined
      \<or> webkitCompassHeading \<lparr>webkitCompassHeading = Undefined, alpha = Null\<rparr> = Null)
   \<and> alpha \<lparr>webkitCompassHeading = Undefined, alpha = Null\<rparr> = Null
   \<and> initialHeading (hook_run [Rerender] useDeviceHeading_mount) = Null
   \<and> hook_step (Orientation deviceorientationabsolute \<lparr>webkitCompassHeading = Undefined, alpha = Null\<rparr>)
        (hook_run [Rerender] useDeviceHeading_mount) = hook_run [Rerender] useDeviceHeading_mount
   \<and> listeners (hook_step (Orientation deviceorientationabsolute
        \<lparr>webkitCompassHeading = Undefined, alpha = Null\<rparr>) (hook_run [Rerender] useDeviceHeading_mount))
      = {deviceorientationabsolute, deviceorientation}"
  using unusable_sample_discarded [of "\<lparr>webkitCompassHeading = Undefined, alpha = Null\<rparr>"
      "hook_run [Rerender] useDeviceHeading_mount" "[Rerender]" deviceorientationabsolute]
  by (simp add: useDeviceHeading_mount_def useDeviceHeading_effect_def)

text \<open>
  An object with no \<^verbatim>\<open>alpha\<close> property at all is not a \<^verbatim>\<open>DeviceOrientationEvent\<close>;
  the handler would take \<^verbatim>\<open>360 - undefined\<close> for a compass angle.
\<close>

lemma sample_without_alpha_property:
  "initialHeading (hook_step (Orientation deviceorientation
       \<lparr>webkitCompassHeading = Undefined, alpha = Undefined\<rparr>) useDeviceHeading_mount) = NaN"
  by (simp add: useDeviceHeading_mount_def dispatchEvent_def handleOrientation_def compass_def)


section \<open>Scene yaw\<close>

lemma App_inv_mount: "App_inv App_mount"
  by (simp add: App_inv_def App_mount_def calibrator_inv_mount)

lemma effect_initialHeading: "initialHeading (useDeviceHeading_effect h) = initialHeading h"
  by (simp add: useDeviceHeading_effect_def)

lemma App_inv_step: "App_inv s \<Longrightarrow> App_inv (App_step ev s)"
proof (cases ev)
  case (Position la lo)
  assume "App_inv s"
  then show ?thesis by (simp add: Position App_inv_def onPosition_def heading_def)
next
  case PositionError
  assume "App_inv s"
  then show ?thesis by (simp add: PositionError)
next
  case (Sensor ty e)
  assume a: "App_inv s"
  then have inv: "calibrator_inv (headingHook s)" by (simp add: App_inv_def)
  have i: "calibrator_inv (hook_step (Orientation ty e) (headingHook s))"
    using inv by (rule calibrator_inv_step)
  have k: "initialHeading (headingHook s) \<noteq> Null \<Longrightarrow>
      initialHeading (hook_step (Orientation ty e) (headingHook s)) = initialHeading (headingHook s)"
    using inv by (rule calibrated_step)
  show ?thesis
  proof (cases "initialHeading (headingHook s) = Null")
    case True
    then have "App_initialHeading s = Null" using a by (auto simp: App_inv_def heading_def)
    then show ?thesis using i by (simp add: Sensor App_inv_def)
  next
    case False
    then show ?thesis using a i k by (auto simp: Sensor App_inv_def heading_def)
  qed
next
  case Commit
  assume a: "App_inv s"
  then have inv: "calibrator_inv (headingHook s)" by (simp add: App_inv_def)
  have i: "calibrator_inv (hook_step Rerender (headingHook s))"
    using inv by (rule calibrator_inv_step)
  show ?thesis using a i
    by (auto simp: Commit App_inv_def heading_def captureInitialHeading_def effect_initialHeading)
qed

lemma App_inv_run: "App_inv s \<Longrightarrow> App_inv (App_run evs s)"
  by (induction evs arbitrary: s) (simp_all add: App_inv_step)

lemma commit_yaw:
  assumes "App_inv s"
  shows "or_zero (App_initialHeading (App_step Commit s)) = or_zero (heading (App_step Commit s))"
proof (cases "truthy (heading s)")
  case True
  then show ?thesis using assms
    by (auto simp: App_inv_def heading_def captureInitialHeading_def effect_initialHeading)
next
  case False
  then have "or_zero (heading s) = 0" by (cases "heading s") simp_all
  then show ?thesis using assms False
    by (auto simp: App_inv_def heading_def captureInitialHeading_def effect_initialHeading)
qed

text \<open>
  C4. The yaw of the root group is the negated heading, and \<open>0\<close> while the heading is
  null. This holds for the heading the group is rendered from, the component's own copy,
  in any state \<open>s'\<close>: null gives no rotation, a number \<open>d'\<close> gives a rotation about the
  vertical axis by \<open>-d'\<close> degrees, handed to the renderer in radians. It holds for the
  calibrated heading of the hook in every state \<open>s\<close> reached by a session and then
  committed, so that the effect copying the heading has run; on the one render that
  precedes that effect the copy is still null and the yaw still \<open>0\<close>. The rotation sits
  on the root group only: what is rendered is either the waiting message or that group
  around one element per object, each built by \<open>place\<close> with a position and no rotation.
\<close>

theorem scene_yaw:
  assumes "s = App_step Commit (App_run evs App_mount)"
  shows "(heading s = Null \<longrightarrow> groupRotation s = (0, 0, 0))
       \<and> (heading s = Num d \<longrightarrow> groupRotation s = (0, - degToRad d, 0))
       \<and> (App s = GettingGPS \<or> App s = Scene (groupRotation s) (map place (objects s)) (heading s))
       \<and> (App_initialHeading s' = Null \<longrightarrow> groupRotation s' = (0, 0, 0))
       \<and> (App_initialHeading s' = Num d' \<longrightarrow> groupRotation s' = (0, - degToRad d', 0))"
proof -
  have "App_inv (App_run evs App_mount)"
    using App_inv_mount by (rule App_inv_run)
  then have y: "or_zero (App_initialHeading s) = or_zero (heading s)"
    unfolding assms by (rule commit_yaw)
  have v: "App s = GettingGPS \<or> App s = Scene (groupRotation s) (map place (objects s)) (heading s)"
    by (cases "origin s") (simp_all add: App_def)
  show ?thesis using y v by (auto simp: groupRotation_def degToRad_def)
qed

text \<open>
  Before any sample the yaw is \<open>0\<close>; after a fix and a sample with \<^verbatim>\<open>alpha = 270\<close> the
  heading is \<open>90\<close> and the yaw is \<open>-90\<close> degrees.
\<close>

theorem scene_yaw_witness:
  "heading (App_step Commit (App_run [] App_mount)) = Null
   \<and> groupRotation (App_step Commit (App_run [] App_mount)) = (0, 0, 0)
   \<and> heading (App_step Commit (App_run [Position 10 20,
        Sensor deviceorientation \<lparr>webkitCompassHeading = Undefined, alpha = Num 270\<rparr>] App_mount)) = Num 90
   \<and> groupRotation (App_step Commit (App_run [Position 10 20,
        Sensor deviceorientation \<lparr>webkitCompassHeading = Undefined, alpha = Num 270\<rparr>] App_mount))
      = (0, - degToRad 90, 0)
   \<and> App_initialHeading App_mount = Null
   \<and> groupRotation App_mount = (0, 0, 0)
   \<and> App_initialHeading (App_mount\<lparr>App_initialHeading := Num 90\<rparr>) = Num 90
   \<and> groupRotation (App_mount\<lparr>App_initialHeading := Num 90\<rparr>) = (0, - degToRad 90, 0)"
  using
    scene_yaw [of "App_step Commit (App_run [] App_mount)" "[]" 0 App_mount 0]
    scene_yaw [of "App_step Commit (App_run [Position 10 20,
        Sensor deviceorientation \<lparr>webkitCompassHeading = Undefined, alpha = Num 270\<rparr>] App_mount)"
      "[Position 10 20,
        Sensor deviceorientation \<lparr>webkitCompassHeading = Undefined, alpha = Num 270\<rparr>]" 90
      "App_mount\<lparr>App_initialHeading := Num 90\<rparr>" 90]
  by (simp add: App_mount_def useDeviceHeading_mount_def heading_def captureInitialHeading_def
      useDeviceHeading_effect_def onPosition_def dispatchEvent_def handleOrientation_def compass_def)


section \<open>The first fix\<close>

text \<open>
  C1, as stated, fails. After a first fix at \<open>(10, 20)\<close> the \<^verbatim>\<open>origin\<close> state is
  \<open>(10, 20)\<close> and the first entity lies at \<open>(10, 20)\<close>, yet its rendered position is not
  the projection of that coordinate from that origin.
\<close>

theorem first_fix_origin_not_used:
  "origin (App_step (Position 10 20) App_mount) = Some (10, 20)
   \<and> objects (App_step (Position 10 20) App_mount) ! 0 = \<lparr>lat = 10, lon = 20, type = ''user''\<rparr>
   \<and> position (children (App (App_step (Position 10 20) App_mount)) ! 0)
       \<noteq> latLonToOffset 10 20 10 20"
  by (simp add: onPosition_def App_mount_def App_def place_def WORLD_ORIGIN_def
      latLonToOffset_eq earthRadius_def)

text \<open>
  C1, amended. A fix sets the \<^verbatim>\<open>origin\<close> state to the coordinate of the fix and creates
  a non-empty entity list, and every entity's rendered position is the projection of the
  entity's coordinate from the constant \<open>WORLD_ORIGIN = (12.7489708, 80.1988392)\<close>.
\<close>

theorem first_fix_placement:
  "origin (App_step (Position la lo) s) = Some (la, lo)
   \<and> objects (App_step (Position la lo) s) \<noteq> []
   \<and> map position (children (App (App_step (Position la lo) s)))
       = map (\<lambda>ob. latLonToOffset 12.7489708 80.1988392 (lat ob) (lon ob))
           (objects (App_step (Position la lo) s))"
proof -
  have "position (place ob) = latLonToOffset 12.7489708 80.1988392 (lat ob) (lon ob)" for ob
    by (simp add: place_def Let_def WORLD_ORIGIN_def)
  then show ?thesis by (simp add: onPosition_def App_def)
qed

text \<open>The earlier revision did project from the fix.\<close>

lemma first_fix_placement_part_000:
  "map position (children (App_part_000 (onPosition_part_000 la lo s)))
     = map (\<lambda>ob. latLonToOffset la lo (lat ob) (lon ob)) (objects (onPosition_part_000 la lo s))"
  by (simp add: onPosition_part_000_def App_part_000_def place_part_000_def)

text \<open>
  C9. A fix replaces the entity list, whatever it held, by six entities: one
  \<^verbatim>\<open>user\<close> at the coordinate of the fix; four \<^verbatim>\<open>monk\<close>s at the offsets
  \<open>(0.00005, 0)\<close>, \<open>(0.0001, 0.0001)\<close>, \<open>(0.00001, 0.00001)\<close> and \<open>(0.00002, 0.00002)\<close>
  in latitude and longitude; and one \<^verbatim>\<open>button\<close> at the latitude of the fix and its
  longitude plus \<open>0.00005\<close>.
\<close>

theorem fix_replaces_entities:
  "length (objects (App_step (Position la lo) s)) = 6
   \<and> filter (\<lambda>ob. type ob = ''user'') (objects (App_step (Position la lo) s))
       = [\<lparr>lat = la, lon = lo, type = ''user''\<rparr>]
   \<and> map (\<lambda>ob. (lat ob - la, lon ob - lo))
         (filter (\<lambda>ob. type ob = ''monk'') (objects (App_step (Position la lo) s)))
       = [(0.00005, 0), (0.0001, 0.0001), (0.00001, 0.00001), (0.00002, 0.00002)]
   \<and> filter (\<lambda>ob. type ob = ''button'') (objects (App_step (Position la lo) s))
       = [\<lparr>lat = la, lon = lo + 0.00005, type = ''button''\<rparr>]"
  by (simp add: onPosition_def)


section \<open>Deleting a point that is not stored\<close>

lemma delete_first_absent: "\<forall>x \<in> set xs. \<not> P x \<Longrightarrow> delete_first P xs = xs"
  by (induction xs) simp_all

text \<open>
  C10. For an identifier that can be cast and that no stored point carries, the handler
  answers with status 200 and the message \<^verbatim>\<open>Point deleted successfully\<close> and the
  collection is unchanged; and the answer is that same one for every collection, so it
  does not tell whether a point was deleted.
\<close>

theorem delete_missing_point:
  assumes "wellFormed i" and "\<forall>p \<in> set db. point_id p \<noteq> i"
  shows "delete_arpoint wellFormed i db
           = (\<lparr>status = 200, message = ''Point deleted successfully''\<rparr>, db)
       \<and> fst (delete_arpoint wellFormed i db')
           = \<lparr>status = 200, message = ''Point deleted successfully''\<rparr>"
  using assms by (simp add: delete_arpoint_def findByIdAndDelete_def delete_first_absent)

theorem delete_missing_point_witness:
  "(\<lambda>i. length i = 24) ''507f1f77bcf86cd799439011''
   \<and> point_id \<lparr>point_id = ''507f191e810c19729de860ea'', name = ''gate'', modelUrl = '''',
          modelType = ''box'', latitude = 12.75, longitude = 80.2, createdAt = 0\<rparr>
        \<noteq> ''507f1f77bcf86cd799439011''
   \<and> delete_arpoint (\<lambda>i. length i = 24) ''507f1f77bcf86cd799439011''
        [\<lparr>point_id = ''507f191e810c19729de860ea'', name = ''gate'', modelUrl = '''',
          modelType = ''box'', latitude = 12.75, longitude = 80.2, createdAt = 0\<rparr>]
      = (\<lparr>status = 200, message = ''Point deleted successfully''\<rparr>,
         [\<lparr>point_id = ''507f191e810c19729de860ea'', name = ''gate'', modelUrl = '''',
          modelType = ''box'', latitude = 12.75, longitude = 80.2, createdAt = 0\<rparr>])
   \<and> delete_arpoint (\<lambda>i. length i = 24) ''507f1f77bcf86cd799439011''
        [\<lparr>point_id = ''507f1f77bcf86cd799439011'', name = ''monk'', modelUrl = '''',
          modelType = ''monk'', latitude = 12.75, longitude = 80.2, createdAt = 1\<rparr>]
      = (\<lparr>status = 200, message = ''Point deleted successfully''\<rparr>, [])"
  using delete_missing_point [of "\<lambda>i. length i = 24" "''507f1f77bcf86cd799439011''"
      "[\<lparr>point_id = ''507f191e810c19729de860ea'', name = ''gate'', modelUrl = '''',
          modelType = ''box'', latitude = 12.75, longitude = 80.2, createdAt = 0\<rparr>]"
      "[\<lparr>point_id = ''507f1f77bcf86cd799439011'', name = ''monk'', modelUrl = '''',
          modelType = ''monk'', latitude = 12.75, longitude = 80.2, createdAt = 1\<rparr>]"]
  by (simp add: delete_arpoint_def findByIdAndDelete_def)

text \<open>An identifier that cannot be cast is answered with status 500 and nothing is deleted.\<close>

lemma delete_malformed_id:
  "\<not> wellFormed i \<Longrightarrow>
     delete_arpoint wellFormed i db = (\<lparr>status = 500, message = ''Cast to ObjectId failed''\<rparr>, db)"
  by (simp add: delete_arpoint_def findByIdAndDelete_def)

end
